theory Spec2Isabelle
  imports Complex_Main
begin

section \<open>Media assembly pipeline of the voice drama studio\<close>

text \<open>
  A shallow embedding of \<^verbatim>\<open>utils/audioUtils.ts\<close>, of the batch handlers of
  \<^verbatim>\<open>App.tsx\<close>, of the batch loops of \<^verbatim>\<open>pages/BatchPage.tsx\<close> and of
  \<^verbatim>\<open>services/batchStorageService.ts\<close>.

  Numbers: a JavaScript number that holds a sample or a time is a \<open>real\<close> (a Float32
  sample times 32767 or 32768 is exact in a double, so the sample conversion is modelled
  without loss; sums of durations are modelled without the rounding of doubles).
  Counts, lengths and clock readings are \<open>nat\<close>. Bytes are \<open>nat\<close> below 256.

  Failures: every \<^verbatim>\<open>throw\<close> and every rejected promise is the \<open>Inl\<close> of a sum.
  Collaborators outside the repository (speech and image providers, the MP3 encoder, the
  image decoder, the media recorder, the video platform) are parameters that say, for
  each call, whether it fails and what it returns.
\<close>

subsection \<open>Errors and blobs\<close>

datatype error =
    Error string          \<comment> \<open>\<^verbatim>\<open>new Error(message)\<close>, also the failure of a provider\<close>
  | DOMException string   \<comment> \<open>raised by the browser, by name\<close>
  | ErrorEvent            \<comment> \<open>the event passed to an \<^verbatim>\<open>onerror\<close> handler\<close>

record Blob =
  blobBytes :: "nat list"
  blobType :: string

subsection \<open>Audio buffers\<close>

text \<open>
  The browser's \<^verbatim>\<open>AudioBuffer\<close>: a sample rate and one Float32 array per channel.
  \<^verbatim>\<open>numberOfChannels\<close>, \<^verbatim>\<open>length\<close> and \<^verbatim>\<open>duration\<close> are its derived properties.
\<close>

record AudioBuffer =
  sampleRate :: nat
  channelData :: "real list list"

definition numberOfChannels :: "AudioBuffer \<Rightarrow> nat" where
  "numberOfChannels b = length (channelData b)"

definition bufLength :: "AudioBuffer \<Rightarrow> nat" where
  "bufLength b = (case channelData b of [] \<Rightarrow> 0 | c # _ \<Rightarrow> length c)"

definition duration :: "AudioBuffer \<Rightarrow> real" where
  "duration b = real (bufLength b) / real (sampleRate b)"

text \<open>What the browser guarantees of every \<^verbatim>\<open>AudioBuffer\<close> it hands out.\<close>

definition wellFormed :: "AudioBuffer \<Rightarrow> bool" where
  "wellFormed b \<longleftrightarrow>
     0 < sampleRate b \<and> channelData b \<noteq> [] \<and> 0 < bufLength b \<and>
     list_all (\<lambda>c. length c = bufLength b) (channelData b)"

subsection \<open>mergeAudioBuffers\<close>

text \<open>
  An \<^verbatim>\<open>OfflineAudioContext\<close> as the code configures it: channel count, length in
  frames, sample rate, and the sources started on it, each with its start time.
  The constructor rejects a length of zero frames (and zero channels) with a
  \<^verbatim>\<open>NotSupportedError\<close>; this is the browser's behaviour, not code of the repository.
\<close>

record OfflineAudioContext =
  ctxChannels :: nat
  ctxLength :: nat
  ctxSampleRate :: nat
  ctxSources :: "(real \<times> AudioBuffer) list"

definition newOfflineAudioContext :: "nat \<Rightarrow> nat \<Rightarrow> nat \<Rightarrow> error + OfflineAudioContext" where
  "newOfflineAudioContext channels len rate =
     (if channels = 0 \<or> len = 0 \<or> rate = 0 then Inl (DOMException ''NotSupportedError'')
      else Inr \<lparr>ctxChannels = channels, ctxLength = len, ctxSampleRate = rate, ctxSources = []\<rparr>)"

text \<open>\<^verbatim>\<open>source.start(currentOffset)\<close> on a source holding \<open>buffer\<close>.\<close>

definition startSource :: "real \<Rightarrow> AudioBuffer \<Rightarrow> OfflineAudioContext \<Rightarrow> OfflineAudioContext" where
  "startSource when buffer ctx = ctx\<lparr>ctxSources := ctxSources ctx @ [(when, buffer)]\<rparr>"

text \<open>The loop of lines 76 to 83, with \<open>currentOffset\<close> as loop state.\<close>

fun scheduleBuffers :: "real \<Rightarrow> AudioBuffer list \<Rightarrow> OfflineAudioContext \<Rightarrow> OfflineAudioContext" where
  "scheduleBuffers currentOffset [] ctx = ctx"
| "scheduleBuffers currentOffset (buffer # rest) ctx =
     scheduleBuffers (currentOffset + duration buffer) rest (startSource currentOffset buffer ctx)"

definition totalDuration :: "AudioBuffer list \<Rightarrow> real" where
  "totalDuration buffers = foldl (\<lambda>acc b. acc + duration b) 0 buffers"

definition totalLength :: "AudioBuffer list \<Rightarrow> nat" where
  "totalLength buffers = nat \<lceil>totalDuration buffers * 44100\<rceil>"

text \<open>Everything \<^verbatim>\<open>mergeAudioBuffers\<close> does before it asks the browser to render.\<close>

definition mergeContext :: "AudioBuffer list \<Rightarrow> error + OfflineAudioContext" where
  "mergeContext buffers =
     (case newOfflineAudioContext 1 1 44100 of
        Inl e \<Rightarrow> Inl e
      | Inr ctx \<Rightarrow>
          (case newOfflineAudioContext 1 (totalLength buffers) 44100 of
             Inl e \<Rightarrow> Inl e
           | Inr offlineCtx \<Rightarrow> Inr (scheduleBuffers 0 buffers offlineCtx)))"

text \<open>
  \<^verbatim>\<open>startRendering\<close>: the rendered buffer has the channel count, length and rate of
  the context. Its samples are computed by the browser (mixing and resampling), here
  the parameter \<open>mix\<close>: the sample of a channel at a frame.
\<close>

definition startRendering ::
  "(OfflineAudioContext \<Rightarrow> nat \<Rightarrow> nat \<Rightarrow> real) \<Rightarrow> OfflineAudioContext \<Rightarrow> AudioBuffer" where
  "startRendering mix ctx =
     \<lparr>sampleRate = ctxSampleRate ctx,
      channelData = map (\<lambda>ch. map (mix ctx ch) [0..<ctxLength ctx]) [0..<ctxChannels ctx]\<rparr>"

definition mergeAudioBuffers ::
  "(OfflineAudioContext \<Rightarrow> nat \<Rightarrow> nat \<Rightarrow> real) \<Rightarrow> AudioBuffer list \<Rightarrow> error + AudioBuffer" where
  "mergeAudioBuffers mix buffers =
     (case mergeContext buffers of
        Inl e \<Rightarrow> Inl e
      | Inr offlineCtx \<Rightarrow> Inr (startRendering mix offlineCtx))"


subsection \<open>bufferToWav\<close>

text \<open>\<^verbatim>\<open>x | 0\<close>: truncate toward zero, then wrap to a signed 32-bit integer.\<close>

definition trunc :: "real \<Rightarrow> int" where
  "trunc x = (if x < 0 then - \<lfloor>- x\<rfloor> else \<lfloor>x\<rfloor>)"

definition toInt32 :: "real \<Rightarrow> int" where
  "toInt32 x = (let m = trunc x mod 4294967296 in if 2147483648 \<le> m then m - 4294967296 else m)"

definition clampSample :: "real \<Rightarrow> real" where
  "clampSample x = max (- 1) (min 1 x)"

text \<open>
  Lines 126 and 128. The condition parses as \<^verbatim>\<open>(0.5 + sample) < 0\<close>.
\<close>

definition wavSample :: "real \<Rightarrow> int" where
  "wavSample x =
     (let sample = clampSample x
      in toInt32 (if 0.5 + sample < 0 then sample * 32768 else sample * 32767))"

definition setUint16 :: "nat \<Rightarrow> nat list" where
  "setUint16 d = [d mod 256, d div 256 mod 256]"

definition setUint32 :: "nat \<Rightarrow> nat list" where
  "setUint32 d = [d mod 256, d div 256 mod 256, d div 65536 mod 256, d div 16777216 mod 256]"

definition setInt16 :: "int \<Rightarrow> nat list" where
  "setInt16 v = setUint16 (nat (v mod 65536))"

text \<open>
  The 44 bytes of the header. \<open>len\<close> is the size of the file; the two helpers of the
  source advance \<open>pos\<close>, which is 40 when the chunk length is written and 44 after it.
\<close>

definition wavHeader :: "AudioBuffer \<Rightarrow> nat list" where
  "wavHeader b =
     (let numOfChan = numberOfChannels b;
          len = bufLength b * numOfChan * 2 + 44
      in setUint32 0x46464952 @ setUint32 (len - 8) @ setUint32 0x45564157 @
         setUint32 0x20746d66 @ setUint32 16 @ setUint16 1 @ setUint16 numOfChan @
         setUint32 (sampleRate b) @ setUint32 (sampleRate b * 2 * numOfChan) @
         setUint16 (numOfChan * 2) @ setUint16 16 @
         setUint32 0x61746164 @ setUint32 (len - 40 - 4))"

text \<open>
  The samples the loop of lines 123 to 133 writes, in the order it writes them. The loop
  reads frame \<open>pos\<close> of every channel and runs while \<open>pos < buffer.length\<close>; \<open>pos\<close> is
  the variable the header helpers advanced, so the loop starts at frame 44. A read past
  the end of a channel gives \<^verbatim>\<open>undefined\<close>, so \<^verbatim>\<open>NaN\<close>, which \<^verbatim>\<open>| 0\<close> turns into 0.
\<close>

definition wavSampleAt :: "real list \<Rightarrow> nat \<Rightarrow> int" where
  "wavSampleAt c pos = (if pos < length c then wavSample (c ! pos) else 0)"

definition wavFrames :: "AudioBuffer \<Rightarrow> int list" where
  "wavFrames b =
     concat (map (\<lambda>pos. map (\<lambda>c. wavSampleAt c pos) (channelData b)) [44..<bufLength b])"

text \<open>
  The file: the view is allocated zeroed with \<open>len\<close> bytes; the header fills the first
  44, the samples are written from byte 44 on, the rest stays zero.
\<close>

definition bufferToWav :: "AudioBuffer \<Rightarrow> Blob" where
  "bufferToWav b =
     (let len = bufLength b * numberOfChannels b * 2 + 44;
          written = wavHeader b @ concat (map setInt16 (wavFrames b))
      in \<lparr>blobBytes = written @ replicate (len - length written) 0,
          blobType = ''audio/wav''\<rparr>)"

subsection \<open>bufferToMp3\<close>

text \<open>
  The MP3 encoder of \<^verbatim>\<open>@breezystack/lamejs\<close>, a collaborator: loading the module and
  constructing the encoder, encoding a block, flushing. \<open>'e\<close> is the encoder's state.
\<close>

record 'e Mp3Encoder =
  newMp3Encoder :: "nat \<Rightarrow> nat \<Rightarrow> nat \<Rightarrow> error + 'e"
  encodeBuffer :: "'e \<Rightarrow> int list \<Rightarrow> error + ('e \<times> nat list)"
  flush :: "'e \<Rightarrow> error + nat list"

text \<open>A store into an \<^verbatim>\<open>Int16Array\<close>: truncate toward zero, wrap to 16 bits.\<close>

definition toInt16 :: "real \<Rightarrow> int" where
  "toInt16 x = (let m = trunc x mod 65536 in if 32768 \<le> m then m - 65536 else m)"

definition mp3Sample :: "real \<Rightarrow> int" where
  "mp3Sample x = (let s = clampSample x in toInt16 (if s < 0 then s * 32768 else s * 32767))"

text \<open>\<^verbatim>\<open>subarray(i, i + sampleBlockSize)\<close> for \<open>i = 0, 1152, ...\<close>\<close>

function sampleBlocks :: "int list \<Rightarrow> int list list" where
  "sampleBlocks xs = (if xs = [] then [] else take 1152 xs # sampleBlocks (drop 1152 xs))"
  by pat_completeness auto
termination
  by (relation "measure length") auto

text \<open>The block loop: a chunk is kept when it is not empty.\<close>

fun encodeBlocks ::
  "'e Mp3Encoder \<Rightarrow> 'e \<Rightarrow> int list list \<Rightarrow> nat list list \<Rightarrow> error + ('e \<times> nat list list)" where
  "encodeBlocks enc e [] mp3Data = Inr (e, mp3Data)"
| "encodeBlocks enc e (sampleChunk # rest) mp3Data =
     (case encodeBuffer enc e sampleChunk of
        Inl err \<Rightarrow> Inl err
      | Inr (e', mp3buf) \<Rightarrow>
          encodeBlocks enc e' rest (if 0 < length mp3buf then mp3Data @ [mp3buf] else mp3Data))"

text \<open>The body of the \<^verbatim>\<open>try\<close> block of \<^verbatim>\<open>bufferToMp3\<close>.\<close>

definition encodeMp3 :: "'e Mp3Encoder \<Rightarrow> AudioBuffer \<Rightarrow> error + Blob" where
  "encodeMp3 enc buffer =
     (case newMp3Encoder enc 1 (sampleRate buffer) 128 of
        Inl err \<Rightarrow> Inl err
      | Inr e \<Rightarrow>
          (case channelData buffer of
             [] \<Rightarrow> Inl (DOMException ''IndexSizeError'')
           | samples # _ \<Rightarrow>
               (case encodeBlocks enc e (sampleBlocks (map mp3Sample samples)) [] of
                  Inl err \<Rightarrow> Inl err
                | Inr (e', mp3Data) \<Rightarrow>
                    (case flush enc e' of
                       Inl err \<Rightarrow> Inl err
                     | Inr mp3buf \<Rightarrow>
                         Inr \<lparr>blobBytes =
                                concat (if 0 < length mp3buf then mp3Data @ [mp3buf] else mp3Data),
                              blobType = ''audio/mp3''\<rparr>))))"

text \<open>The \<^verbatim>\<open>catch\<close> returns the WAV file instead.\<close>

definition bufferToMp3 :: "'e Mp3Encoder \<Rightarrow> AudioBuffer \<Rightarrow> Blob" where
  "bufferToMp3 enc buffer =
     (case encodeMp3 enc buffer of
        Inl err \<Rightarrow> bufferToWav buffer
      | Inr blob \<Rightarrow> blob)"


subsection \<open>createDynamicWebmVideo\<close>

datatype WebmResolution = R720p | R1080p | R4k

datatype WebmQuality = draft | high | ultra

record WebmOptions =
  resolution :: "WebmResolution option"
  quality :: "WebmQuality option"

record WebmSegment =
  audioBuffer :: AudioBuffer
  imageBase64 :: string
  segDuration :: real

record HTMLImageElement =
  imgSrc :: string
  imgWidth :: nat
  imgHeight :: nat

text \<open>
  What the canvas shows after \<^verbatim>\<open>drawImage\<close>: the black fill alone, or an image drawn
  over it at \<open>x\<close>, \<open>y\<close> with a width and a height.
\<close>

datatype CanvasFrame = Black | Picture HTMLImageElement real real real real

text \<open>
  What the recorder captures, in order: a frame drawn on the canvas, a buffer started
  on the audio destination, a wait of so many milliseconds.
\<close>

datatype CaptureEvent = Frame CanvasFrame | Audio AudioBuffer | Hold real

record VideoArtifact =
  videoWidth :: nat
  videoHeight :: nat
  videoBitsPerSecond :: nat
  videoType :: string
  captured :: "CaptureEvent list"

text \<open>
  The browser, for the video: loading an image from its base64 text (\<open>None\<close> when
  \<^verbatim>\<open>onerror\<close> fires), the error of the media recorder if it has one, decoding an audio
  file, and the samples of an offline rendering.
\<close>

record MediaPlatform =
  loadImage :: "string \<Rightarrow> HTMLImageElement option"
  recorderError :: "error option"
  decodeAudioData :: "Blob \<Rightarrow> error + AudioBuffer"
  mix :: "OfflineAudioContext \<Rightarrow> nat \<Rightarrow> nat \<Rightarrow> real"

text \<open>A string in a condition: the empty string counts as false.\<close>

definition truthy :: "string \<Rightarrow> bool" where
  "truthy s \<longleftrightarrow> s \<noteq> []"

definition truthyOpt :: "string option \<Rightarrow> bool" where
  "truthyOpt s = (case s of None \<Rightarrow> False | Some v \<Rightarrow> truthy v)"

definition addUnique :: "string \<Rightarrow> string list \<Rightarrow> string list" where
  "addUnique x xs = (if x \<in> set xs then xs else xs @ [x])"

definition uniqueImages :: "WebmSegment list \<Rightarrow> string option \<Rightarrow> string list" where
  "uniqueImages segments defaultCover =
     foldl (\<lambda>acc s. if truthy (imageBase64 s) then addUnique (imageBase64 s) acc else acc)
       (case defaultCover of None \<Rightarrow> [] | Some c \<Rightarrow> if truthy c then [c] else [])
       segments"

text \<open>\<^verbatim>\<open>Promise.all\<close> over the images: one failure rejects the whole.\<close>

definition preloadImages ::
  "MediaPlatform \<Rightarrow> string list \<Rightarrow> error + (string \<Rightarrow> HTMLImageElement option)" where
  "preloadImages pf images =
     (if list_ex (\<lambda>base64. loadImage pf base64 = None) images then Inl ErrorEvent
      else Inr (\<lambda>base64. if base64 \<in> set images then loadImage pf base64 else None))"

definition drawImage ::
  "nat \<Rightarrow> nat \<Rightarrow> (string \<Rightarrow> HTMLImageElement option) \<Rightarrow> string option \<Rightarrow> string \<Rightarrow> CanvasFrame" where
  "drawImage width height imageCache defaultCover base64 =
     (let img =
        (case imageCache base64 of
           Some i \<Rightarrow> Some i
         | None \<Rightarrow> (if truthyOpt defaultCover then imageCache (the defaultCover) else None))
      in case img of
           None \<Rightarrow> Black
         | Some i \<Rightarrow>
             (let scale = min (real width / real (imgWidth i)) (real height / real (imgHeight i));
                  x = (real width - real (imgWidth i) * scale) / 2;
                  y = (real height - real (imgHeight i) * scale) / 2
              in Picture i x y (real (imgWidth i) * scale) (real (imgHeight i) * scale)))"

definition createDynamicWebmVideo ::
  "MediaPlatform \<Rightarrow> WebmSegment list \<Rightarrow> string option \<Rightarrow> WebmOptions \<Rightarrow> error + VideoArtifact" where
  "createDynamicWebmVideo pf segments defaultCover options =
     (let res = (case resolution options of None \<Rightarrow> R1080p | Some r \<Rightarrow> r);
          qual = (case quality options of None \<Rightarrow> high | Some q \<Rightarrow> q);
          width = (case res of R720p \<Rightarrow> 1280 | R1080p \<Rightarrow> 1920 | R4k \<Rightarrow> 3840);
          height = (case res of R720p \<Rightarrow> 720 | R1080p \<Rightarrow> 1080 | R4k \<Rightarrow> 2160);
          bitrate = (case qual of draft \<Rightarrow> 2500000 | high \<Rightarrow> 8000000 | ultra \<Rightarrow> 16000000)
      in case preloadImages pf (uniqueImages segments defaultCover) of
           Inl e \<Rightarrow> Inl e
         | Inr imageCache \<Rightarrow>
             (case recorderError pf of
                Some e \<Rightarrow> Inl e
              | None \<Rightarrow>
                  Inr \<lparr>videoWidth = width, videoHeight = height, videoBitsPerSecond = bitrate,
                       videoType = ''video/webm'',
                       captured =
                         (case segments of
                            [] \<Rightarrow> []
                          | first # _ \<Rightarrow>
                              [Frame (drawImage width height imageCache defaultCover
                                        (imageBase64 first))]) @
                         concat (map (\<lambda>segment.
                                   [Frame (drawImage width height imageCache defaultCover
                                             (imageBase64 segment)),
                                    Audio (audioBuffer segment),
                                    Hold (segDuration segment * 1000)]) segments) @
                         [Hold 500]\<rparr>))"

definition createWebmVideo ::
  "MediaPlatform \<Rightarrow> Blob \<Rightarrow> string \<Rightarrow> real \<Rightarrow> error + VideoArtifact" where
  "createWebmVideo pf audioBlob cover dur =
     (case decodeAudioData pf audioBlob of
        Inl e \<Rightarrow> Inl e
      | Inr decoded \<Rightarrow>
          createDynamicWebmVideo pf
            [\<lparr>audioBuffer = decoded, imageBase64 = cover, segDuration = dur\<rparr>]
            (Some cover) \<lparr>resolution = None, quality = None\<rparr>)"

text \<open>
  The rounding the specification describes, for comparison with \<open>wavSample\<close>:
  round half away from zero, after scaling the clamped sample into the 16-bit range.
\<close>

definition roundHalfAwayFromZero :: "real \<Rightarrow> int" where
  "roundHalfAwayFromZero y = (if y < 0 then - \<lfloor>- y + 1 / 2\<rfloor> else \<lfloor>y + 1 / 2\<rfloor>)"

definition specSample :: "real \<Rightarrow> int" where
  "specSample x =
     (let s = clampSample x in roundHalfAwayFromZero (if s < 0 then s * 32768 else s * 32767))"

subsection \<open>Jobs\<close>

text \<open>
  \<^verbatim>\<open>batchTypes.ts\<close> and \<^verbatim>\<open>types.ts\<close>, with the fields the handlers below read or
  write. Left out, because nothing below depends on them: the story text and the
  podcast metadata, the cast and the scenes (they only choose the voice handed to the
  speech provider), the time stamps, the error message and the YouTube identifiers.
\<close>

datatype BatchJobStatus =
  pending | script_ready | generating | files_ready | uploading | uploaded | error

datatype ItemType = SPEECH | SFX

datatype AudioFormat = mp3 | pcm | wav

record ScriptItem =
  itemId :: string
  itemType :: ItemType
  itemText :: "string option"
  sfxDescription :: "string option"
  audioKey :: "string option"
  audioFormat :: "AudioFormat option"

record BatchJobScriptData =
  items :: "ScriptItem list"

record BatchJobFiles =
  mp3Key :: "string option"
  webmKey :: "string option"
  coverKey :: "string option"

record BatchJob =
  jobId :: string
  status :: BatchJobStatus
  scriptData :: "BatchJobScriptData option"
  files :: "BatchJobFiles option"

text \<open>
  \<^verbatim>\<open>Partial<BatchJob>\<close>: the fields an update carries. \<^verbatim>\<open>{...stored, ...updates}\<close>
  takes a field from the update when the update has it.
\<close>

record JobUpdates =
  newStatus :: "BatchJobStatus option"
  newScriptData :: "BatchJobScriptData option"
  newFiles :: "BatchJobFiles option"

definition applyUpdates :: "BatchJob \<Rightarrow> JobUpdates \<Rightarrow> BatchJob" where
  "applyUpdates job updates =
     job\<lparr>status := (case newStatus updates of None \<Rightarrow> status job | Some s \<Rightarrow> s),
         scriptData := (case newScriptData updates of None \<Rightarrow> scriptData job | Some d \<Rightarrow> Some d),
         files := (case newFiles updates of None \<Rightarrow> files job | Some f \<Rightarrow> Some f)\<rparr>"

text \<open>A whole job passed as the update.\<close>

definition wholeJob :: "BatchJob \<Rightarrow> JobUpdates" where
  "wholeJob job = \<lparr>newStatus = Some (status job), newScriptData = scriptData job, newFiles = files job\<rparr>"

definition statusOnly :: "BatchJobStatus \<Rightarrow> JobUpdates" where
  "statusOnly s = \<lparr>newStatus = Some s, newScriptData = None, newFiles = None\<rparr>"

subsection \<open>batchStorageService: localStorage and IndexedDB\<close>

datatype Stored = StoredBlob Blob | StoredVideo VideoArtifact | StoredBase64 string

record Storage =
  batchJobs :: "BatchJob list"
  audioFiles :: "string \<rightharpoonup> Stored"

record SpeechResult =
  audioBase64 :: string
  format :: AudioFormat

text \<open>
  The world around one invocation of a handler: the configured keys, the collaborators
  (each says whether its call fails and what it returns; the speech and effect providers
  are asked per position in the script), the clock read by \<^verbatim>\<open>Date.now()\<close> at its
  \<open>n\<close>-th call of the step, and the faults of the two stores.
\<close>

record 'e Env =
  geminiApiKey :: string
  elevenLabsApiKey :: string
  generateScriptFromStory :: "BatchJob \<Rightarrow> error + BatchJobScriptData"
  generateSpeech :: "nat \<Rightarrow> ScriptItem \<Rightarrow> error + SpeechResult"
  generateElevenLabsSfx :: "nat \<Rightarrow> string \<Rightarrow> error + string"
  decodeRawPCM :: "string \<Rightarrow> error + AudioBuffer"
  decodeAudioFile :: "string \<Rightarrow> error + AudioBuffer"
  mp3Encoder :: "'e Mp3Encoder"
  generatePodcastCoverArt :: "error + string"
  platform :: MediaPlatform
  dateNow :: "nat \<Rightarrow> nat"
  youTubeAccessToken :: "string option"
  uploadToYouTube :: "Stored \<Rightarrow> error + unit"
  setItemFails :: bool
  openDatabaseFails :: bool
  requestFails :: "string \<Rightarrow> bool"

definition loadBatchJobs :: "Storage \<Rightarrow> BatchJob list" where
  "loadBatchJobs st = batchJobs st"

text \<open>\<^verbatim>\<open>saveBatchJobs\<close> catches and logs a failing \<^verbatim>\<open>setItem\<close>.\<close>

definition saveBatchJobs :: "'e Env \<Rightarrow> BatchJob list \<Rightarrow> Storage \<Rightarrow> Storage" where
  "saveBatchJobs env jobs st = (if setItemFails env then st else st\<lparr>batchJobs := jobs\<rparr>)"

fun findIndex :: "('a \<Rightarrow> bool) \<Rightarrow> 'a list \<Rightarrow> nat option" where
  "findIndex P [] = None"
| "findIndex P (x # xs) = (if P x then Some 0 else map_option Suc (findIndex P xs))"

definition updateBatchJob :: "'e Env \<Rightarrow> string \<Rightarrow> JobUpdates \<Rightarrow> Storage \<Rightarrow> Storage" where
  "updateBatchJob env i updates st =
     (let jobs = loadBatchJobs st
      in case findIndex (\<lambda>j. jobId j = i) jobs of
           None \<Rightarrow> st
         | Some index \<Rightarrow> saveBatchJobs env (jobs[index := applyUpdates (jobs ! index) updates]) st)"

definition getBatchJob :: "string \<Rightarrow> Storage \<Rightarrow> BatchJob option" where
  "getBatchJob i st = find (\<lambda>j. jobId j = i) (loadBatchJobs st)"

text \<open>
  A write to the object store (\<^verbatim>\<open>saveAudioBlob\<close>, \<^verbatim>\<open>saveItemAudioBase64\<close>): it
  rejects when the database cannot be opened or the request fails.
\<close>

definition putAudioFile :: "'e Env \<Rightarrow> string \<Rightarrow> Stored \<Rightarrow> Storage \<Rightarrow> error + Storage" where
  "putAudioFile env key v st =
     (if openDatabaseFails env \<or> requestFails env key then Inl (DOMException ''UnknownError'')
      else Inr (st\<lparr>audioFiles := (audioFiles st)(key \<mapsto> v)\<rparr>))"

definition saveAudioBlob :: "'e Env \<Rightarrow> string \<Rightarrow> Stored \<Rightarrow> Storage \<Rightarrow> error + Storage" where
  "saveAudioBlob env key blob st = putAudioFile env key blob st"

definition saveItemAudioBase64 :: "'e Env \<Rightarrow> string \<Rightarrow> string \<Rightarrow> Storage \<Rightarrow> error + Storage" where
  "saveItemAudioBase64 env key base64 st = putAudioFile env key (StoredBase64 base64) st"


definition deleteAudioBlob :: "'e Env \<Rightarrow> string \<Rightarrow> Storage \<Rightarrow> error + Storage" where
  "deleteAudioBlob env key st =
     (if openDatabaseFails env then Inr st
      else if requestFails env key then Inl (DOMException ''UnknownError'')
      else Inr (st\<lparr>audioFiles := (audioFiles st)(key := None)\<rparr>))"

text \<open>The keys \<^verbatim>\<open>deleteJobAudioFiles\<close> collects, in its order.\<close>

definition keysToDelete :: "BatchJob \<Rightarrow> string list" where
  "keysToDelete job =
     (case files job of
        None \<Rightarrow> []
      | Some f \<Rightarrow>
          (if truthyOpt (mp3Key f) then [the (mp3Key f)] else []) @
          (if truthyOpt (webmKey f) then [the (webmKey f)] else []) @
          (if truthyOpt (coverKey f) then [the (coverKey f)] else [])) @
     (case scriptData job of
        None \<Rightarrow> []
      | Some d \<Rightarrow>
          concat (map (\<lambda>item. if truthyOpt (audioKey item) then [the (audioKey item)] else [])
                    (items d)))"

text \<open>The deleting loop: a failure is caught and logged, the loop goes on.\<close>

fun deleteKeys :: "'e Env \<Rightarrow> string list \<Rightarrow> Storage \<Rightarrow> Storage" where
  "deleteKeys env [] st = st"
| "deleteKeys env (key # rest) st =
     deleteKeys env rest (case deleteAudioBlob env key st of Inl e \<Rightarrow> st | Inr st' \<Rightarrow> st')"

definition deleteJobAudioFiles :: "'e Env \<Rightarrow> BatchJob \<Rightarrow> Storage \<Rightarrow> Storage" where
  "deleteJobAudioFiles env job st = deleteKeys env (keysToDelete job) st"

definition deleteBatchJob :: "'e Env \<Rightarrow> string \<Rightarrow> Storage \<Rightarrow> Storage" where
  "deleteBatchJob env i st =
     (let st1 = (case getBatchJob i st of
                   None \<Rightarrow> st
                 | Some job \<Rightarrow> deleteJobAudioFiles env job st);
          jobs = filter (\<lambda>j. jobId j \<noteq> i) (loadBatchJobs st1)
      in saveBatchJobs env jobs st1)"

text \<open>A non-negative integer in a template string: its decimal digits.\<close>

definition digit :: "nat \<Rightarrow> char" where
  "digit d = ''0123456789'' ! d"

function numberToString :: "nat \<Rightarrow> string" where
  "numberToString n =
     (if n < 10 then [digit n] else numberToString (n div 10) @ [digit (n mod 10)])"
  by pat_completeness auto
termination
  by (relation "measure id") auto

definition generateAudioKey :: "string \<Rightarrow> string \<Rightarrow> nat \<Rightarrow> string" where
  "generateAudioKey job_id type now = job_id @ ''_'' @ type @ ''_'' @ numberToString now"

definition generateItemAudioKey :: "string \<Rightarrow> string \<Rightarrow> string" where
  "generateItemAudioKey job_id item_id = job_id @ ''_item_'' @ item_id"

subsection \<open>The handlers of App.tsx\<close>


text \<open>
  One speech item, lines 321 to 369. The whole attempt is inside \<^verbatim>\<open>try\<close>: a failure of
  the provider or of the decoder leaves everything as it was; a failure of the save comes
  after the buffer was pushed.
\<close>

definition speechItem ::
  "'e Env \<Rightarrow> string \<Rightarrow> nat \<Rightarrow> ScriptItem \<Rightarrow> AudioBuffer list \<times> ScriptItem list \<times> Storage
     \<Rightarrow> AudioBuffer list \<times> ScriptItem list \<times> Storage" where
  "speechItem env job_id idx item acc =
     (case acc of (audioBuffers, updatedItems, st) \<Rightarrow>
        (case generateSpeech env idx item of
           Inl e \<Rightarrow> acc
         | Inr result \<Rightarrow>
             (case (if format result = pcm then decodeRawPCM env (audioBase64 result)
                    else decodeAudioFile env (audioBase64 result)) of
                Inl e \<Rightarrow> acc
              | Inr buffer \<Rightarrow>
                  (let key = generateItemAudioKey job_id (itemId item)
                   in case saveItemAudioBase64 env key (audioBase64 result) st of
                        Inl e \<Rightarrow> (audioBuffers @ [buffer], updatedItems, st)
                      | Inr st' \<Rightarrow>
                          (audioBuffers @ [buffer],
                           updatedItems[idx := item\<lparr>audioKey := Some key,
                              audioFormat := Some (if format result = pcm then pcm else mp3)\<rparr>],
                           st')))))"

text \<open>One sound effect item, lines 370 to 381. Nothing here is inside \<^verbatim>\<open>try\<close>.\<close>

definition sfxItem ::
  "'e Env \<Rightarrow> string \<Rightarrow> nat \<Rightarrow> ScriptItem \<Rightarrow> AudioBuffer list \<times> ScriptItem list \<times> Storage
     \<Rightarrow> error + AudioBuffer list \<times> ScriptItem list \<times> Storage" where
  "sfxItem env job_id idx item acc =
     (case acc of (audioBuffers, updatedItems, st) \<Rightarrow>
        (case generateElevenLabsSfx env idx (the (sfxDescription item)) of
           Inl e \<Rightarrow> Inl e
         | Inr base64 \<Rightarrow>
             (case decodeAudioFile env base64 of
                Inl e \<Rightarrow> Inl e
              | Inr buffer \<Rightarrow>
                  (let key = generateItemAudioKey job_id (itemId item)
                   in case saveItemAudioBase64 env key base64 st of
                        Inl e \<Rightarrow> Inl e
                      | Inr st' \<Rightarrow>
                          Inr (audioBuffers @ [buffer],
                               updatedItems[idx := item\<lparr>audioKey := Some key,
                                  audioFormat := Some mp3\<rparr>],
                               st')))))"

text \<open>The loop over the items, lines 318 to 382; a throw ends it with the storage so far.\<close>

fun generateAudio ::
  "'e Env \<Rightarrow> string \<Rightarrow> nat \<Rightarrow> ScriptItem list \<Rightarrow> AudioBuffer list \<times> ScriptItem list \<times> Storage
     \<Rightarrow> (error + AudioBuffer list \<times> ScriptItem list) \<times> Storage" where
  "generateAudio env job_id idx [] (audioBuffers, updatedItems, st) =
     (Inr (audioBuffers, updatedItems), st)"
| "generateAudio env job_id idx (item # rest) (audioBuffers, updatedItems, st) =
     (if itemType item = SPEECH \<and> truthyOpt (itemText item) then
        generateAudio env job_id (Suc idx) rest
          (speechItem env job_id idx item (audioBuffers, updatedItems, st))
      else if itemType item = SFX \<and> truthyOpt (sfxDescription item) \<and> truthy (elevenLabsApiKey env) then
        (case sfxItem env job_id idx item (audioBuffers, updatedItems, st) of
           Inl e \<Rightarrow> (Inl e, st)
         | Inr acc \<Rightarrow> generateAudio env job_id (Suc idx) rest acc)
      else generateAudio env job_id (Suc idx) rest (audioBuffers, updatedItems, st))"

text \<open>Lines 417 to 453: the keys, the three saves, the updated job.\<close>

definition saveFiles ::
  "'e Env \<Rightarrow> BatchJob \<Rightarrow> BatchJobScriptData \<Rightarrow> ScriptItem list \<Rightarrow> Blob \<Rightarrow> VideoArtifact option
     \<Rightarrow> string option \<Rightarrow> Storage \<Rightarrow> (error + BatchJob) \<times> Storage" where
  "saveFiles env job sd updatedItems mp3Blob webmBlob coverBase64 st =
     (let mp3_key = generateAudioKey (jobId job) ''mp3'' (dateNow env 0);
          webm_key = (case webmBlob of
                        None \<Rightarrow> None
                      | Some v \<Rightarrow> Some (generateAudioKey (jobId job) ''webm'' (dateNow env 1)));
          cover_key = (if truthyOpt coverBase64 then Some (jobId job @ ''_cover'') else None)
      in case saveAudioBlob env mp3_key (StoredBlob mp3Blob) st of
           Inl e \<Rightarrow> (Inl e, st)
         | Inr st1 \<Rightarrow>
             (case (case webmBlob of
                      None \<Rightarrow> Inr st1
                    | Some v \<Rightarrow> saveAudioBlob env (the webm_key) (StoredVideo v) st1) of
                Inl e \<Rightarrow> (Inl e, st1)
              | Inr st2 \<Rightarrow>
                  (case (if truthyOpt coverBase64
                         then saveItemAudioBase64 env (the cover_key) (the coverBase64) st2
                         else Inr st2) of
                     Inl e \<Rightarrow> (Inl e, st2)
                   | Inr st3 \<Rightarrow>
                       (let updatedJob =
                              job\<lparr>status := files_ready,
                                  scriptData := Some (sd\<lparr>items := updatedItems\<rparr>),
                                  files := Some \<lparr>mp3Key = Some mp3_key, webmKey = webm_key,
                                                 coverKey = cover_key\<rparr>\<rparr>
                        in (Inr updatedJob,
                            updateBatchJob env (jobId job) (wholeJob updatedJob) st3)))))"

definition handleGenerateFiles ::
  "'e Env \<Rightarrow> BatchJob \<Rightarrow> Storage \<Rightarrow> (error + BatchJob) \<times> Storage" where
  "handleGenerateFiles env job st =
     (case scriptData job of
        None \<Rightarrow> (Inl (Error ''No script data''), st)
      | Some sd \<Rightarrow>
          (let st0 = updateBatchJob env (jobId job) (statusOnly generating) st
           in case generateAudio env (jobId job) 0 (items sd) ([], items sd, st0) of
                (Inl e, st1) \<Rightarrow> (Inl e, st1)
              | (Inr (audioBuffers, updatedItems), st1) \<Rightarrow>
                  (if audioBuffers = [] then (Inl (Error ''No audio generated''), st1)
                   else
                     (case mergeAudioBuffers (mix (platform env)) audioBuffers of
                        Inl e \<Rightarrow> (Inl e, st1)
                      | Inr mergedBuffer \<Rightarrow>
                          (let wavBlob = bufferToWav mergedBuffer;
                               mp3Blob = bufferToMp3 (mp3Encoder env) mergedBuffer;
                               coverBase64 =
                                 (if truthy (geminiApiKey env)
                                  then (case generatePodcastCoverArt env of
                                          Inl e \<Rightarrow> None
                                        | Inr c \<Rightarrow> Some c)
                                  else None)
                           in case (if truthyOpt coverBase64
                                    then (case createWebmVideo (platform env) wavBlob
                                                 (the coverBase64) (duration mergedBuffer) of
                                            Inl e \<Rightarrow> Inl e
                                          | Inr v \<Rightarrow> Inr (Some v))
                                    else Inr None) of
                                Inl e \<Rightarrow> (Inl e, st1)
                              | Inr webmBlob \<Rightarrow>
                                  saveFiles env job sd updatedItems mp3Blob webmBlob
                                    coverBase64 st1)))))"


subsection \<open>The batch loops of BatchPage.tsx\<close>














subsection \<open>Notions used in the proofs about the statuses\<close>




definition touch :: "string \<Rightarrow> BatchJobStatus \<Rightarrow> BatchJob list \<Rightarrow> BatchJob list \<Rightarrow> bool" where
  "touch i s js js' \<longleftrightarrow>
     js' = js \<or>
     (\<exists>index j'. index < length js \<and> jobId (js ! index) = i \<and> jobId j' = i \<and> status j' = s \<and>
        js' = js[index := j'])"

fun path :: "string \<Rightarrow> BatchJobStatus list \<Rightarrow> BatchJob list \<Rightarrow> BatchJob list \<Rightarrow> bool" where
  "path i [] js js' \<longleftrightarrow> js' = js"
| "path i (s # ss) js js' \<longleftrightarrow> (\<exists>js1. touch i s js js1 \<and> path i ss js1 js')"

subsection \<open>Notions used in the proofs about the stored files\<close>





section \<open>Sample inputs\<close>

text \<open>Small inputs on which the theorems below are instantiated.\<close>

definition clipA :: AudioBuffer where
  "clipA = \<lparr>sampleRate = 44100, channelData = [[0, 0, 0, 0]]\<rparr>"

definition clipB :: AudioBuffer where
  "clipB = \<lparr>sampleRate = 44100, channelData = [[1, 1]]\<rparr>"


definition silentMix :: "OfflineAudioContext \<Rightarrow> nat \<Rightarrow> nat \<Rightarrow> real" where
  "silentMix ctx ch n = 0"

definition plainPlatform :: MediaPlatform where
  "plainPlatform =
     \<lparr>loadImage = \<lambda>s. Some \<lparr>imgSrc = s, imgWidth = 16, imgHeight = 9\<rparr>,
      recorderError = None,
      decodeAudioData = \<lambda>b. Inr clipA,
      mix = silentMix\<rparr>"

definition sampleEncoder :: "unit Mp3Encoder" where
  "sampleEncoder =
     \<lparr>newMp3Encoder = \<lambda>channels rate kbps. Inr (),
      encodeBuffer = \<lambda>e block. Inr (e, [255, 251]),
      flush = \<lambda>e. Inr []\<rparr>"

definition speechLine :: ScriptItem where
  "speechLine =
     \<lparr>itemId = ''a'', itemType = SPEECH, itemText = Some ''Hello'', sfxDescription = None,
      audioKey = None, audioFormat = None\<rparr>"

definition doorSlam :: ScriptItem where
  "doorSlam =
     \<lparr>itemId = ''b'', itemType = SFX, itemText = None, sfxDescription = Some ''door slam'',
      audioKey = None, audioFormat = None\<rparr>"

text \<open>A world in which every collaborator answers and no store fails.\<close>

definition sampleEnv :: "unit Env" where
  "sampleEnv =
     \<lparr>geminiApiKey = ''g'', elevenLabsApiKey = ''e'',
      generateScriptFromStory = \<lambda>job. Inr \<lparr>items = [speechLine, doorSlam]\<rparr>,
      generateSpeech = \<lambda>idx item. Inr \<lparr>audioBase64 = ''AAAA'', format = pcm\<rparr>,
      generateElevenLabsSfx = \<lambda>idx description. Inr ''BBBB'',
      decodeRawPCM = \<lambda>base64. Inr clipA,
      decodeAudioFile = \<lambda>base64. Inr clipB,
      mp3Encoder = sampleEncoder,
      generatePodcastCoverArt = Inr ''cover'',
      platform = plainPlatform,
      dateNow = \<lambda>n. 2000 + n,
      youTubeAccessToken = Some ''token'',
      uploadToYouTube = \<lambda>video. Inr (),
      setItemFails = False,
      openDatabaseFails = False,
      requestFails = \<lambda>key. False\<rparr>"

text \<open>A job whose files were generated once, at time 1000, and the storage holding it.\<close>

definition doneJob :: BatchJob where
  "doneJob =
     \<lparr>jobId = ''j1'', status = files_ready,
      scriptData = Some \<lparr>items = [speechLine\<lparr>audioKey := Some ''j1_item_a'',
                                             audioFormat := Some pcm\<rparr>]\<rparr>,
      files = Some \<lparr>mp3Key = Some ''j1_mp3_1000'', webmKey = Some ''j1_webm_1001'',
                    coverKey = Some ''j1_cover''\<rparr>\<rparr>"

definition doneStorage :: Storage where
  "doneStorage =
     \<lparr>batchJobs = [doneJob],
      audioFiles = [''j1_item_a'' \<mapsto> StoredBase64 ''AAAA'',
                    ''j1_mp3_1000'' \<mapsto> StoredBlob \<lparr>blobBytes = [1], blobType = ''audio/mp3''\<rparr>,
                    ''j1_webm_1001'' \<mapsto> StoredBase64 ''video'',
                    ''j1_cover'' \<mapsto> StoredBase64 ''cover'']\<rparr>"

text \<open>A job with its script, one speech line and one sound effect, before its files.\<close>

definition readyJob :: BatchJob where
  "readyJob =
     \<lparr>jobId = ''j2'', status = script_ready,
      scriptData = Some \<lparr>items = [speechLine, doorSlam]\<rparr>, files = None\<rparr>"

definition readyStorage :: Storage where
  "readyStorage = \<lparr>batchJobs = [readyJob], audioFiles = Map.empty\<rparr>"

text \<open>The sample world, with the sound effect provider answering with an error.\<close>

definition sfxDownEnv :: "unit Env" where
  "sfxDownEnv =
     sampleEnv\<lparr>generateElevenLabsSfx :=
       \<lambda>idx description. Inl (Error ''ElevenLabs SFX Error: quota exceeded'')\<rparr>"





text \<open>
  What the specification calls a blob the job references: a key held by the files
  references or by a script item (a key is never the empty string).
\<close>

definition references :: "BatchJob \<Rightarrow> string \<Rightarrow> bool" where
  "references job k \<longleftrightarrow>
     k \<noteq> [] \<and>
     ((case files job of
         None \<Rightarrow> False
       | Some f \<Rightarrow> mp3Key f = Some k \<or> webmKey f = Some k \<or> coverKey f = Some k) \<or>
      (case scriptData job of
         None \<Rightarrow> False
       | Some d \<Rightarrow> list_ex (\<lambda>item. audioKey item = Some k) (items d)))"

section \<open>The lossless encoder\<close>

lemma trunc_bounds: "\<bar>y\<bar> \<le> 32768 \<Longrightarrow> - 32768 \<le> trunc y \<and> trunc y \<le> 32768"
  unfolding trunc_def by (auto simp: floor_le_iff le_floor_iff; linarith)

lemma wrap_small:
  fixes t :: int
  assumes "- 2147483648 \<le> t" "t < 2147483648"
  shows "(let m = t mod 4294967296 in if 2147483648 \<le> m then m - 4294967296 else m) = t"
proof (cases "t < 0")
  case True
  have "(t + 4294967296) mod 4294967296 = t + 4294967296"
    using assms True by (intro mod_pos_pos_trivial) auto
  then have "t mod 4294967296 = t + 4294967296" by simp
  then show ?thesis using assms True by (simp add: Let_def)
next
  case False
  then have "t mod 4294967296 = t" using assms by (intro mod_pos_pos_trivial) auto
  then show ?thesis using assms by (simp add: Let_def)
qed

lemma toInt32_small: "\<bar>y\<bar> \<le> 32768 \<Longrightarrow> toInt32 y = trunc y"
  unfolding toInt32_def using trunc_bounds [of y] by (intro wrap_small) auto

lemma clampSample_range: "- 1 \<le> clampSample x \<and> clampSample x \<le> 1"
  by (auto simp: clampSample_def)

text \<open>The wrap of \<^verbatim>\<open>| 0\<close> never acts on a clamped sample: only the truncation is left.\<close>

lemma wavSample_trunc:
  "wavSample x = trunc (clampSample x * (if clampSample x < - (1 / 2) then 32768 else 32767))"
proof -
  have r: "- 1 \<le> clampSample x \<and> clampSample x \<le> 1" by (rule clampSample_range)
  then have "\<bar>clampSample x * 32768\<bar> \<le> 32768" "\<bar>clampSample x * 32767\<bar> \<le> 32768"
    by (auto simp: abs_le_iff)
  then show ?thesis
    unfolding wavSample_def Let_def by (auto simp: toInt32_small)
qed

lemma wavSample_range: "- 32768 \<le> wavSample x \<and> wavSample x \<le> 32767"
proof -
  have r: "- 1 \<le> clampSample x \<and> clampSample x \<le> 1" by (rule clampSample_range)
  show ?thesis
    unfolding wavSample_trunc trunc_def using r
    by (auto simp: floor_le_iff le_floor_iff; linarith)
qed

lemma wavSample_nonneg: "0 \<le> x \<Longrightarrow> wavSample x = \<lfloor>clampSample x * 32767\<rfloor>"
  unfolding wavSample_trunc trunc_def by (auto simp: clampSample_def)

lemma wavSample_below_half: "x < - (1 / 2) \<Longrightarrow> wavSample x = \<lceil>clampSample x * 32768\<rceil>"
  unfolding wavSample_trunc trunc_def by (auto simp: clampSample_def ceiling_def)

lemma wavSample_ends: "wavSample 1 = 32767 \<and> wavSample (- 1) = - 32768"
  by (simp add: wavSample_trunc trunc_def clampSample_def)

lemma wavFrames_from_samples:
  assumes "wellFormed b" "v \<in> set (wavFrames b)"
  shows "\<exists>c \<in> set (channelData b). \<exists>x \<in> set c. v = wavSample x"
proof -
  from assms(2) obtain pos c where pc: "c \<in> set (channelData b)" "44 \<le> pos" "pos < bufLength b"
    "v = wavSampleAt c pos"
    unfolding wavFrames_def by auto
  from assms(1) pc(1) have "length c = bufLength b"
    unfolding wellFormed_def by (auto simp: list_all_iff)
  with pc have "c ! pos \<in> set c" "v = wavSample (c ! pos)"
    by (auto simp: wavSampleAt_def)
  with pc(1) show ?thesis by blast
qed

lemma length_concat_const:
  "(\<And>x. x \<in> set xs \<Longrightarrow> length x = k) \<Longrightarrow> length (concat xs) = k * length xs"
  by (induction xs) auto

lemma length_wavFrames: "length (wavFrames b) = (bufLength b - 44) * numberOfChannels b"
  unfolding wavFrames_def numberOfChannels_def
  by (subst length_concat_const [where k = "length (channelData b)"]) auto

lemma length_wavHeader: "length (wavHeader b) = 44"
  by (simp add: wavHeader_def Let_def setUint32_def setUint16_def)

lemma length_bufferToWav:
  "length (blobBytes (bufferToWav b)) = 44 + bufLength b * numberOfChannels b * 2"
proof -
  have "length (concat (map setInt16 (wavFrames b))) = 2 * length (wavFrames b)"
    by (subst length_concat_const [where k = 2]) (auto simp: setInt16_def setUint16_def)
  then show ?thesis
    unfolding bufferToWav_def Let_def
    by (simp add: length_wavHeader length_wavFrames diff_mult_distrib)
qed

text \<open>
  C5, as the code has it. Every 16-bit sample that \<open>bufferToWav\<close> writes for a well-formed
  buffer is \<open>wavSample\<close> of a sample of the buffer, and the file always has its 44 header
  bytes and two bytes per frame and channel (the encoder is a total function: it never
  fails). \<open>wavSample\<close> clamps to the interval from -1 to 1, scales and truncates toward
  zero; it does not round. A sample that is not negative is scaled by 32767, a sample
  below -0.5 by 32768; the result is always a signed 16-bit value; +1.0 gives 32767 and
  -1.0 gives -32768.
\<close>

theorem wavSample_clamp_scale_truncate:
  assumes "wellFormed b"
  shows "(\<forall>v \<in> set (wavFrames b). \<exists>c \<in> set (channelData b). \<exists>s \<in> set c. v = wavSample s) \<and>
         length (blobBytes (bufferToWav b)) = 44 + bufLength b * numberOfChannels b * 2 \<and>
         - 32768 \<le> wavSample z \<and> wavSample z \<le> 32767 \<and>
         (0 \<le> x \<longrightarrow> wavSample x = \<lfloor>clampSample x * 32767\<rfloor>) \<and>
         (y < - (1 / 2) \<longrightarrow> wavSample y = \<lceil>clampSample y * 32768\<rceil>) \<and>
         wavSample 1 = 32767 \<and> wavSample (- 1) = - 32768"
  using wavFrames_from_samples [OF assms] length_bufferToWav [of b] wavSample_range [of z]
    wavSample_nonneg [of x] wavSample_below_half [of y] wavSample_ends
  by blast

theorem wavSample_clamp_scale_truncate_witness:
  "wellFormed \<lparr>sampleRate = 44100, channelData = [replicate 44 0 @ [3 / 8, - (3 / 4)]]\<rparr> \<and>
   (0 :: real) \<le> 3 / 8 \<and> - (3 / 4) < (- (1 / 2) :: real) \<and>
   wavSample (3 / 8) = \<lfloor>clampSample (3 / 8) * 32767\<rfloor> \<and>
   wavSample (- (3 / 4)) = \<lceil>clampSample (- (3 / 4)) * 32768\<rceil> \<and>
   wavSample 5 \<le> 32767"
proof -
  have wf: "wellFormed \<lparr>sampleRate = 44100, channelData = [replicate 44 0 @ [3 / 8, - (3 / 4)]]\<rparr>"
    by (simp add: wellFormed_def bufLength_def)
  show ?thesis
    using wf wavSample_clamp_scale_truncate [OF wf, of 5 "3 / 8" "- (3 / 4)"] by simp
qed

text \<open>
  The claim as the specification words it fails: the sample 0.375 scales to 12287.625,
  which the encoder writes as 12287 where rounding gives 12288. (The buffer has 46
  frames because the loop starts at frame 44.)
\<close>

theorem wavSample_rounding_counterexample:
  "wavFrames \<lparr>sampleRate = 44100, channelData = [replicate 44 0 @ [3 / 8, - (3 / 4)]]\<rparr>
     = [12287, - 24576] \<and>
   specSample (3 / 8) = 12288"
  by (simp add: wavFrames_def bufLength_def wavSampleAt_def nth_append wavSample_def
      clampSample_def toInt32_def trunc_def specSample_def roundHalfAwayFromZero_def)

section \<open>The compressed encoder\<close>

lemma bufferToMp3_cases:
  "bufferToMp3 enc buffer =
     (case encodeMp3 enc buffer of Inl err \<Rightarrow> bufferToWav buffer | Inr blob \<Rightarrow> blob)"
  by (simp add: bufferToMp3_def)

lemma encodeMp3_unavailable:
  "newMp3Encoder enc 1 (sampleRate buffer) 128 = Inl err \<Longrightarrow> encodeMp3 enc buffer = Inl err"
  by (simp add: encodeMp3_def)

lemma encodeMp3_type: "encodeMp3 enc buffer = Inr blob \<Longrightarrow> blobType blob = ''audio/mp3''"
  unfolding encodeMp3_def
  by (auto split: sum.splits list.splits prod.splits)

lemma blobType_bufferToWav: "blobType (bufferToWav b) = ''audio/wav''"
  by (simp add: bufferToWav_def Let_def)

lemma bufferToMp3_other_type:
  "blobType (bufferToMp3 enc buffer) \<noteq> ''audio/wav'' \<Longrightarrow>
     encodeMp3 enc buffer = Inr (bufferToMp3 enc buffer) \<and>
     blobType (bufferToMp3 enc buffer) = ''audio/mp3''"
  by (auto simp: bufferToMp3_cases bufferToWav_def Let_def encodeMp3_type split: sum.splits)

text \<open>
  C6. \<open>bufferToMp3\<close> returns a blob whatever the encoder does (its result type has no
  failure). When the encoder cannot be loaded or constructed, or a block or the flush
  throws, the result is exactly the file of the lossless encoder, and its declared type
  is \<^verbatim>\<open>audio/wav\<close>.
\<close>

theorem bufferToMp3_falls_back_to_wav:
  "(encodeMp3 enc buffer = Inl err \<longrightarrow>
      bufferToMp3 enc buffer = bufferToWav buffer \<and>
      blobType (bufferToMp3 enc buffer) = ''audio/wav'') \<and>
   (newMp3Encoder enc 1 (sampleRate buffer) 128 = Inl err \<longrightarrow>
      bufferToMp3 enc buffer = bufferToWav buffer \<and>
      blobType (bufferToMp3 enc buffer) = ''audio/wav'')"
  using encodeMp3_unavailable [of enc buffer err]
  by (auto simp: bufferToMp3_cases bufferToWav_def Let_def)

theorem bufferToMp3_falls_back_to_wav_witness:
  "newMp3Encoder
     \<lparr>newMp3Encoder = \<lambda>c r k. Inl (Error ''module not found''),
      encodeBuffer = \<lambda>(e :: unit) xs. Inr (e, []), flush = \<lambda>e. Inr []\<rparr>
     1 (sampleRate \<lparr>sampleRate = 44100, channelData = [[0, 1 / 2]]\<rparr>) 128
     = Inl (Error ''module not found'') \<and>
   encodeMp3
     \<lparr>newMp3Encoder = \<lambda>c r k. Inl (Error ''module not found''),
      encodeBuffer = \<lambda>(e :: unit) xs. Inr (e, []), flush = \<lambda>e. Inr []\<rparr>
     \<lparr>sampleRate = 44100, channelData = [[0, 1 / 2]]\<rparr>
     = Inl (Error ''module not found'') \<and>
   blobType (bufferToMp3
     \<lparr>newMp3Encoder = \<lambda>c r k. Inl (Error ''module not found''),
      encodeBuffer = \<lambda>(e :: unit) xs. Inr (e, []), flush = \<lambda>e. Inr []\<rparr>
     \<lparr>sampleRate = 44100, channelData = [[0, 1 / 2]]\<rparr>) = ''audio/wav''"
  using bufferToMp3_falls_back_to_wav
    [of "\<lparr>newMp3Encoder = \<lambda>c r k. Inl (Error ''module not found''),
          encodeBuffer = \<lambda>(e :: unit) xs. Inr (e, []), flush = \<lambda>e. Inr []\<rparr>"
        "\<lparr>sampleRate = 44100, channelData = [[0, 1 / 2]]\<rparr>" "Error ''module not found''"]
  by (simp add: encodeMp3_def blobType_bufferToWav)


section \<open>The timeline assembler\<close>

























section \<open>The slideshow renderer\<close>

lemma set_addUnique: "set (addUnique x xs) = insert x (set xs)"
  by (auto simp: addUnique_def)

lemma set_foldl_unique:
  "set (foldl (\<lambda>acc s. if truthy (imageBase64 s) then addUnique (imageBase64 s) acc else acc) init segments)
     = set init \<union> {imageBase64 s | s. s \<in> set segments \<and> truthy (imageBase64 s)}"
  by (induction segments arbitrary: init) (auto simp: set_addUnique)

lemma set_uniqueImages:
  "set (uniqueImages segments defaultCover) =
     (if truthyOpt defaultCover then {the defaultCover} else {}) \<union>
     {imageBase64 s | s. s \<in> set segments \<and> truthy (imageBase64 s)}"
  unfolding uniqueImages_def set_foldl_unique
  by (auto simp: truthyOpt_def split: option.splits)

lemma preloadImages_ok:
  assumes "\<forall>i \<in> set images. loadImage pf i \<noteq> None"
  shows "preloadImages pf images = Inr (\<lambda>base64. if base64 \<in> set images then loadImage pf base64 else None)"
  using assms by (auto simp: preloadImages_def list_ex_iff)

lemma drawImage_no_image:
  "\<not> truthyOpt defaultCover \<Longrightarrow> imageCache base64 = None \<Longrightarrow>
     drawImage w h imageCache defaultCover base64 = Black"
  by (simp add: drawImage_def)

text \<open>
  C8, as the code has it. Without a fallback image, a segment that has no image does
  not make the render fail: when the recorder works and the images that are given
  load, the render returns its video, in which every segment without an image is
  shown as the black fill alone, for its duration.
\<close>

theorem render_without_image_draws_black:
  assumes "\<not> truthyOpt defaultCover" and "recorderError pf = None"
    and "\<forall>s \<in> set segments. truthy (imageBase64 s) \<longrightarrow> loadImage pf (imageBase64 s) \<noteq> None"
  shows "\<exists>video shown.
           createDynamicWebmVideo pf segments defaultCover options = Inr video \<and>
           captured video =
             (case segments of [] \<Rightarrow> [] | first # _ \<Rightarrow> [Frame (shown first)]) @
             concat (map (\<lambda>s. [Frame (shown s), Audio (audioBuffer s), Hold (segDuration s * 1000)])
                       segments) @
             [Hold 500] \<and>
           (\<forall>s \<in> set segments. \<not> truthy (imageBase64 s) \<longrightarrow> shown s = Black)"
proof -
  let ?images = "uniqueImages segments defaultCover"
  let ?cache = "\<lambda>base64. if base64 \<in> set ?images then loadImage pf base64 else None"
  have imgs: "set ?images = {imageBase64 s | s. s \<in> set segments \<and> truthy (imageBase64 s)}"
    using assms(1) by (simp add: set_uniqueImages)
  have "\<forall>i \<in> set ?images. loadImage pf i \<noteq> None"
    unfolding imgs using assms(3) by auto
  from preloadImages_ok [OF this] have pre: "preloadImages pf ?images = Inr ?cache" .
  have black: "drawImage w h ?cache defaultCover (imageBase64 s) = Black"
    if "\<not> truthy (imageBase64 s)" for s w h
  proof -
    have "imageBase64 s \<notin> set ?images" unfolding imgs using that by auto
    then show ?thesis using assms(1) by (simp add: drawImage_no_image)
  qed
  let ?res = "case resolution options of None \<Rightarrow> R1080p | Some r \<Rightarrow> r"
  let ?w = "case ?res of R720p \<Rightarrow> 1280 | R1080p \<Rightarrow> 1920 | R4k \<Rightarrow> 3840"
  let ?h = "case ?res of R720p \<Rightarrow> 720 | R1080p \<Rightarrow> 1080 | R4k \<Rightarrow> 2160"
  let ?shown = "\<lambda>s. drawImage ?w ?h ?cache defaultCover (imageBase64 s)"
  obtain video where v: "createDynamicWebmVideo pf segments defaultCover options = Inr video"
    and c: "captured video =
             (case segments of [] \<Rightarrow> [] | first # _ \<Rightarrow> [Frame (?shown first)]) @
             concat (map (\<lambda>s. [Frame (?shown s), Audio (audioBuffer s), Hold (segDuration s * 1000)])
                       segments) @
             [Hold 500]"
    unfolding createDynamicWebmVideo_def Let_def pre using assms(2) by simp
  have b: "\<forall>s \<in> set segments. \<not> truthy (imageBase64 s) \<longrightarrow> ?shown s = Black"
    using black by blast
  show ?thesis
    by (rule exI [of _ video], rule exI [of _ ?shown], intro conjI v c b)
qed


theorem render_without_image_draws_black_witness:
  "\<not> truthyOpt None \<and> recorderError plainPlatform = None \<and>
   (truthy ''cat'' \<and> loadImage plainPlatform ''cat'' \<noteq> None) \<and> \<not> truthy [] \<and>
   (\<exists>video shown.
      createDynamicWebmVideo plainPlatform
        [\<lparr>audioBuffer = clipA, imageBase64 = [], segDuration = 1\<rparr>,
         \<lparr>audioBuffer = clipB, imageBase64 = ''cat'', segDuration = 1 / 2\<rparr>]
        None \<lparr>resolution = None, quality = None\<rparr> = Inr video \<and>
      captured video =
        [Frame (shown \<lparr>audioBuffer = clipA, imageBase64 = [], segDuration = 1\<rparr>),
         Frame (shown \<lparr>audioBuffer = clipA, imageBase64 = [], segDuration = 1\<rparr>),
         Audio clipA, Hold 1000,
         Frame (shown \<lparr>audioBuffer = clipB, imageBase64 = ''cat'', segDuration = 1 / 2\<rparr>),
         Audio clipB, Hold 500, Hold 500] \<and>
      shown \<lparr>audioBuffer = clipA, imageBase64 = [], segDuration = 1\<rparr> = Black)"
  using render_without_image_draws_black
    [of None plainPlatform
      "[\<lparr>audioBuffer = clipA, imageBase64 = [], segDuration = 1\<rparr>,
        \<lparr>audioBuffer = clipB, imageBase64 = ''cat'', segDuration = 1 / 2\<rparr>]"
      "\<lparr>resolution = None, quality = None\<rparr>"]
  by (simp add: truthyOpt_def truthy_def plainPlatform_def)

text \<open>
  The claim as the specification words it fails: one segment without an image and no
  fallback give a video, not an error.
\<close>

theorem render_missing_image_counterexample:
  "createDynamicWebmVideo plainPlatform
     [\<lparr>audioBuffer = clipA, imageBase64 = [], segDuration = 1\<rparr>]
     None \<lparr>resolution = None, quality = None\<rparr> =
   Inr \<lparr>videoWidth = 1920, videoHeight = 1080, videoBitsPerSecond = 8000000,
        videoType = ''video/webm'',
        captured = [Frame Black, Frame Black, Audio clipA, Hold 1000, Hold 500]\<rparr>"
  by (simp add: createDynamicWebmVideo_def uniqueImages_def truthy_def truthyOpt_def
      preloadImages_def drawImage_def plainPlatform_def)

section \<open>Empty inputs\<close>

lemma render_empty:
  assumes "recorderError pf = None"
    and "truthyOpt defaultCover \<longrightarrow> loadImage pf (the defaultCover) \<noteq> None"
  shows "\<exists>video. createDynamicWebmVideo pf [] defaultCover options = Inr video \<and>
           captured video = [Hold 500]"
proof -
  have "\<forall>i \<in> set (uniqueImages [] defaultCover). loadImage pf i \<noteq> None"
    using assms(2) by (auto simp: set_uniqueImages split: if_splits)
  from preloadImages_ok [OF this] show ?thesis
    unfolding createDynamicWebmVideo_def Let_def using assms(1) by simp
qed

lemma merge_empty: "mergeAudioBuffers rnd [] = Inl (DOMException ''NotSupportedError'')"
  by (simp add: mergeAudioBuffers_def mergeContext_def newOfflineAudioContext_def totalLength_def totalDuration_def)


text \<open>
  C7, as the code has it. Neither function checks for an empty list and neither has a
  typed error for it. \<open>mergeAudioBuffers\<close> on the empty list asks for an offline context
  of zero frames, which the browser rejects, so no buffer is produced. The render on
  the empty list does not fail: when the recorder works (and the fallback image, if one
  is given, loads) it returns a video that holds only the trailing wait of 500 ms.
\<close>

theorem empty_inputs:
  "mergeAudioBuffers rnd [] = Inl (DOMException ''NotSupportedError'') \<and>
   (recorderError pf = None \<and>
    (truthyOpt defaultCover \<longrightarrow> loadImage pf (the defaultCover) \<noteq> None) \<longrightarrow>
    (\<exists>video. createDynamicWebmVideo pf [] defaultCover options = Inr video \<and>
       captured video = [Hold 500]))"
  using merge_empty [of rnd] render_empty [of pf defaultCover options] by blast

theorem empty_inputs_witness:
  "recorderError plainPlatform = None \<and>
   truthyOpt (Some ''cover'') \<and> loadImage plainPlatform (the (Some ''cover'')) \<noteq> None \<and>
   mergeAudioBuffers silentMix [] = Inl (DOMException ''NotSupportedError'') \<and>
   (\<exists>video. createDynamicWebmVideo plainPlatform [] (Some ''cover'')
              \<lparr>resolution = Some R720p, quality = Some draft\<rparr> = Inr video \<and>
      captured video = [Hold 500])"
  using empty_inputs [of silentMix plainPlatform "Some ''cover''"
      "\<lparr>resolution = Some R720p, quality = Some draft\<rparr>"]
  by (simp add: truthyOpt_def truthy_def plainPlatform_def)

text \<open>
  The claim as the specification words it fails: the render of the empty list returns a
  video artifact.
\<close>

theorem render_empty_counterexample:
  "createDynamicWebmVideo plainPlatform [] None \<lparr>resolution = None, quality = None\<rparr> =
   Inr \<lparr>videoWidth = 1920, videoHeight = 1080, videoBitsPerSecond = 8000000,
        videoType = ''video/webm'', captured = [Hold 500]\<rparr>"
  by (simp add: createDynamicWebmVideo_def uniqueImages_def preloadImages_def plainPlatform_def)


section \<open>Deleting a job\<close>

lemma set_item_keys:
  "k \<in> set (concat (map (\<lambda>item. if truthyOpt (audioKey item) then [the (audioKey item)] else []) xs))
     \<longleftrightarrow> k \<noteq> [] \<and> list_ex (\<lambda>item. audioKey item = Some k) xs"
  by (induction xs) (auto simp: truthyOpt_def truthy_def split: option.splits)

lemma set_file_keys:
  "k \<in> set ((if truthyOpt (mp3Key f) then [the (mp3Key f)] else []) @
          (if truthyOpt (webmKey f) then [the (webmKey f)] else []) @
          (if truthyOpt (coverKey f) then [the (coverKey f)] else []))
     \<longleftrightarrow> k \<noteq> [] \<and> (mp3Key f = Some k \<or> webmKey f = Some k \<or> coverKey f = Some k)"
  by (auto simp: truthyOpt_def truthy_def split: option.splits)

lemma set_keysToDelete: "k \<in> set (keysToDelete job) \<longleftrightarrow> references job k"
  unfolding keysToDelete_def references_def set_append Un_iff
  by (cases "files job"; cases "scriptData job")
    (auto simp add: set_item_keys set_file_keys simp del: set_concat set_append)

lemma deleteKeys_jobs: "batchJobs (deleteKeys env keys st) = batchJobs st"
  by (induction keys arbitrary: st) (auto simp: deleteAudioBlob_def split: sum.splits if_splits)

lemma deleteKeys_files:
  "audioFiles (deleteKeys env keys st) k =
     (if k \<in> set keys \<and> \<not> openDatabaseFails env \<and> \<not> requestFails env k then None
      else audioFiles st k)"
  by (induction keys arbitrary: st) (auto simp: deleteAudioBlob_def split: sum.splits if_splits)

lemma find_filter_None: "find P (filter (\<lambda>x. \<not> P x) xs) = None"
  by (induction xs) auto

text \<open>
  C4, as the code has it. \<open>deleteBatchJob\<close> on a stored job deletes the blobs first and
  the record after. When the list of jobs can be saved, the job is absent from the
  metadata afterwards and the other jobs are kept. Every blob the job references (by its
  files references or by a script item) whose delete succeeds is absent afterwards; every
  blob the job does not reference is left as it was.
\<close>

theorem deleteBatchJob_deletes_blobs_then_record:
  assumes "getBatchJob i st = Some job" and "\<not> setItemFails env"
  shows "getBatchJob i (deleteBatchJob env i st) = None \<and>
         loadBatchJobs (deleteBatchJob env i st) = filter (\<lambda>j. jobId j \<noteq> i) (loadBatchJobs st) \<and>
         (\<not> openDatabaseFails env \<and> \<not> requestFails env k \<and> references job k \<longrightarrow>
            audioFiles (deleteBatchJob env i st) k = None) \<and>
         (\<not> references job k' \<longrightarrow>
            audioFiles (deleteBatchJob env i st) k' = audioFiles st k')"
  using assms
  by (simp add: deleteBatchJob_def Let_def saveBatchJobs_def getBatchJob_def loadBatchJobs_def
      deleteJobAudioFiles_def deleteKeys_jobs deleteKeys_files set_keysToDelete find_filter_None)

theorem deleteBatchJob_deletes_blobs_then_record_witness:
  "getBatchJob ''j1'' doneStorage = Some doneJob \<and> \<not> setItemFails sampleEnv \<and>
   \<not> openDatabaseFails sampleEnv \<and> \<not> requestFails sampleEnv ''j1_mp3_1000'' \<and>
   references doneJob ''j1_mp3_1000'' \<and> \<not> references doneJob ''draft'' \<and>
   getBatchJob ''j1'' (deleteBatchJob sampleEnv ''j1'' doneStorage) = None \<and>
   audioFiles (deleteBatchJob sampleEnv ''j1'' doneStorage) ''j1_mp3_1000'' = None"
proof -
  have g: "getBatchJob ''j1'' doneStorage = Some doneJob"
    by (simp add: getBatchJob_def loadBatchJobs_def doneStorage_def doneJob_def)
  have e: "\<not> setItemFails sampleEnv" by (simp add: sampleEnv_def)
  have r: "references doneJob ''j1_mp3_1000''" "\<not> references doneJob ''draft''"
    by (simp_all add: references_def doneJob_def speechLine_def)
  show ?thesis
    using g e r deleteBatchJob_deletes_blobs_then_record [OF g e, of "''j1_mp3_1000''" "''draft''"]
    by (simp add: sampleEnv_def)
qed

text \<open>
  The claim as the specification words it fails: a delete request that fails is caught
  and logged, and the record is removed all the same, which leaves the blob orphaned.
\<close>

theorem deleteBatchJob_orphan_counterexample:
  "references doneJob ''j1_mp3_1000'' \<and>
   getBatchJob ''j1'' (deleteBatchJob (sampleEnv\<lparr>requestFails := \<lambda>key. key = ''j1_mp3_1000''\<rparr>) ''j1'' doneStorage) = None \<and>
   audioFiles (deleteBatchJob (sampleEnv\<lparr>requestFails := \<lambda>key. key = ''j1_mp3_1000''\<rparr>) ''j1'' doneStorage) ''j1_mp3_1000''
     = Some (StoredBlob \<lparr>blobBytes = [1], blobType = ''audio/mp3''\<rparr>)"
  by (simp add: references_def deleteBatchJob_def Let_def saveBatchJobs_def getBatchJob_def loadBatchJobs_def
      deleteJobAudioFiles_def deleteKeys_jobs deleteKeys_files set_keysToDelete find_filter_None
      doneStorage_def doneJob_def speechLine_def sampleEnv_def)



section \<open>The statuses of the jobs\<close>


































lemma path_single: "touch i s js js' \<Longrightarrow> path i [s] js js'"
  by auto





















section \<open>Failures of single items in the file step\<close>

lemma speechItem_provider_failure:
  "generateSpeech env idx item = Inl e \<Longrightarrow> speechItem env job_id idx item acc = acc"
  by (cases acc) (simp add: speechItem_def)

lemma sfxItem_provider_failure:
  "generateElevenLabsSfx env idx (the (sfxDescription item)) = Inl e \<Longrightarrow>
     sfxItem env job_id idx item acc = Inl e"
  by (cases acc) (simp add: sfxItem_def)

text \<open>Without a key for the sound effects, no failure of an item ends the loop.\<close>

lemma generateAudio_speech_only:
  "\<not> truthy (elevenLabsApiKey env) \<Longrightarrow>
     \<exists>audioBuffers updatedItems. fst (generateAudio env job_id idx its acc) = Inr (audioBuffers, updatedItems)"
proof (induction its arbitrary: idx acc)
  case Nil
  obtain b u s where "acc = (b, u, s)" by (metis prod_cases3)
  then show ?case by simp
next
  case (Cons item rest)
  obtain b u s where acc: "acc = (b, u, s)" by (metis prod_cases3)
  show ?case
    unfolding acc using Cons.IH [OF Cons.prems] Cons.prems by simp
qed

text \<open>A script that yields no clip makes the step fail.\<close>

lemma handleGenerateFiles_no_clip:
  assumes "scriptData job = Some sd"
    and "generateAudio env (jobId job) 0 (items sd)
           ([], items sd, updateBatchJob env (jobId job) (statusOnly generating) st)
         = (Inr ([], updatedItems), st1)"
  shows "handleGenerateFiles env job st = (Inl (Error ''No audio generated''), st1)"
  using assms by (simp add: handleGenerateFiles_def)

text \<open>
  C3, at an input where the code departs from it. The job has a speech line and a sound
  effect; the speech is synthesised and saved, the sound effect provider answers with an
  error. The error leaves the step: the step fails with it although one clip succeeded,
  and the stored job stays at \<open>generating\<close> (the batch loop then marks it \<open>error\<close>).
\<close>

theorem sfx_failure_aborts_step:
  "fst (handleGenerateFiles sfxDownEnv readyJob readyStorage)
     = Inl (Error ''ElevenLabs SFX Error: quota exceeded'') \<and>
   map status (batchJobs (snd (handleGenerateFiles sfxDownEnv readyJob readyStorage)))
     = [generating] \<and>
   audioFiles (snd (handleGenerateFiles sfxDownEnv readyJob readyStorage)) ''j2_item_a''
     = Some (StoredBase64 ''AAAA'')"
  by (simp add: handleGenerateFiles_def updateBatchJob_def statusOnly_def loadBatchJobs_def
      saveBatchJobs_def applyUpdates_def speechItem_def sfxItem_def saveItemAudioBase64_def
      putAudioFile_def generateItemAudioKey_def truthy_def truthyOpt_def Let_def
      sfxDownEnv_def sampleEnv_def readyJob_def readyStorage_def speechLine_def doorSlam_def)


section \<open>Generating the files of a job again\<close>






























end
